theory Spec2Isabelle
  imports Complex_Main
begin

section \<open>Brand-name evaluator: data model\<close>

text \<open>
  A shallow embedding of \<^verbatim>\<open>src/brandval/evaluator.py\<close> (class \<^verbatim>\<open>BrandEvaluator\<close>) and of the
  parts of \<^verbatim>\<open>src/namecast/evaluator.py\<close> that differ from it.

  Conventions of the embedding:
  \<^item> a Python \<^verbatim>\<open>str\<close> is a \<open>string\<close>; the case conversions below act on the ASCII letters
    and leave every other character unchanged;
  \<^item> a Python \<^verbatim>\<open>float\<close> is a \<open>real\<close>: scores are exact numbers, rounding is not modelled;
  \<^item> a Python \<^verbatim>\<open>dict\<close> is an association list in insertion order with distinct keys;
  \<^item> the collaborators outside the program (WHOIS, the environment variable holding the
    API key, the two language-model calls) are fields of a record \<open>world\<close>; a call that may
    raise returns a sum, \<open>Inl\<close> carrying the exception.
\<close>

record SimilarCompany =
  company_name :: string
  similarity_score :: real
  industry :: string
  reason :: string

record SimilarCompaniesResult =
  matches :: "SimilarCompany list"
  confusion_risk :: string

record TrademarkResult =
  risk_level :: string
  tm_matches :: "string list"

record PronunciationResult =
  score :: real
  syllables :: nat
  spelling_difficulty :: string

record PerceptionResult =
  evokes :: string
  industry_association :: "string list"
  memorability :: string
  mission_alignment :: "real option"

record InternationalEntry =
  has_issue :: bool
  meaning :: "string option"

type_synonym ('k, 'v) dict = "('k \<times> 'v) list"

section \<open>Python string primitives\<close>

definition lower_char :: "char \<Rightarrow> char" where
  "lower_char c = (let n = (of_char c :: nat) in if 65 \<le> n \<and> n \<le> 90 then char_of (n + 32) else c)"

definition upper_char :: "char \<Rightarrow> char" where
  "upper_char c = (let n = (of_char c :: nat) in if 97 \<le> n \<and> n \<le> 122 then char_of (n - 32) else c)"

definition is_cased :: "char \<Rightarrow> bool" where
  "is_cased c = (let n = (of_char c :: nat) in (65 \<le> n \<and> n \<le> 90) \<or> (97 \<le> n \<and> n \<le> 122))"

text \<open>\<^verbatim>\<open>str.lower()\<close>.\<close>

definition lower :: "string \<Rightarrow> string" where
  "lower s = map lower_char s"

text \<open>\<^verbatim>\<open>str.title()\<close>: a letter that follows a letter is lower-cased, any other letter is
  upper-cased.\<close>

fun title_from :: "bool \<Rightarrow> string \<Rightarrow> string" where
  "title_from previous_is_cased [] = []"
| "title_from previous_is_cased (c # cs) =
     (if previous_is_cased then lower_char c else upper_char c) # title_from (is_cased c) cs"

definition title :: "string \<Rightarrow> string" where
  "title s = title_from False s"

text \<open>\<^verbatim>\<open>s.startswith(p)\<close>.\<close>

definition startswith :: "string \<Rightarrow> string \<Rightarrow> bool" where
  "startswith s p = (take (length p) s = p)"

text \<open>\<^verbatim>\<open>s.endswith(p)\<close>.\<close>

definition endswith :: "string \<Rightarrow> string \<Rightarrow> bool" where
  "endswith s p = (length p \<le> length s \<and> drop (length s - length p) s = p)"

text \<open>\<^verbatim>\<open>p in s\<close> for strings: \<open>p\<close> occurs in \<open>s\<close> as a contiguous substring.\<close>

fun contains :: "string \<Rightarrow> string \<Rightarrow> bool" where
  "contains [] p = (p = [])"
| "contains (c # cs) p = (startswith (c # cs) p \<or> contains cs p)"

text \<open>\<^verbatim>\<open>s.replace(old, new)\<close>: the occurrences of \<open>old\<close> are replaced from left to right
  without overlap.\<close>

function replace :: "string \<Rightarrow> string \<Rightarrow> string \<Rightarrow> string" where
  "replace [] old new = (if old = [] then new else [])"
| "replace (c # cs) old new =
     (if old = [] then new @ concat (map (\<lambda>x. x # new) (c # cs))
      else if startswith (c # cs) old then new @ replace (drop (length old) (c # cs)) old new
      else c # replace cs old new)"
  by pat_completeness auto
termination
  by (relation "measure (\<lambda>(s, old, new). length s)") auto

section \<open>String metrics\<close>

text \<open>\<^verbatim>\<open>_levenshtein_distance\<close>: the inner loop over \<^verbatim>\<open>enumerate(s2)\<close> appends one cell to
  \<^verbatim>\<open>curr_row\<close> per character. The reads \<^verbatim>\<open>prev_row[j + 1]\<close>, \<^verbatim>\<open>prev_row[j]\<close> and
  \<^verbatim>\<open>curr_row[j]\<close> are in range: \<^verbatim>\<open>prev_row\<close> has \<^verbatim>\<open>len(s2) + 1\<close> cells and \<^verbatim>\<open>curr_row\<close> has
  \<^verbatim>\<open>j + 1\<close> cells when column \<^verbatim>\<open>j\<close> is computed.\<close>

fun levenshtein_inner :: "char \<Rightarrow> nat list \<Rightarrow> nat list \<Rightarrow> (nat \<times> char) list \<Rightarrow> nat list" where
  "levenshtein_inner c1 prev_row curr_row [] = curr_row"
| "levenshtein_inner c1 prev_row curr_row ((j, c2) # rest) =
     (let insertions = prev_row ! (j + 1) + 1;
          deletions = curr_row ! j + 1;
          substitutions = prev_row ! j + (if c1 \<noteq> c2 then 1 else 0)
      in levenshtein_inner c1 prev_row
           (curr_row @ [min insertions (min deletions substitutions)]) rest)"

fun levenshtein_outer :: "nat list \<Rightarrow> (nat \<times> char) list \<Rightarrow> string \<Rightarrow> nat list" where
  "levenshtein_outer prev_row [] s2 = prev_row"
| "levenshtein_outer prev_row ((i, c1) # rest) s2 =
     levenshtein_outer (levenshtein_inner c1 prev_row [i + 1] (enumerate 0 s2)) rest s2"

definition levenshtein_ordered :: "string \<Rightarrow> string \<Rightarrow> nat" where
  "levenshtein_ordered s1 s2 =
     (if length s2 = 0 then length s1
      else last (levenshtein_outer [0 ..< length s2 + 1] (enumerate 0 s1) s2))"

definition levenshtein_distance :: "string \<Rightarrow> string \<Rightarrow> nat" where
  "levenshtein_distance s1 s2 =
     (if length s1 < length s2 then levenshtein_ordered s2 s1 else levenshtein_ordered s1 s2)"

text \<open>\<^verbatim>\<open>_simplify_phonetic\<close>.\<close>

definition replacements :: "(string \<times> string) list" where
  "replacements =
     [(''ph'', ''f''), (''ck'', ''k''), (''gh'', ''g''), (''kn'', ''n''), (''wr'', ''r''),
      (''wh'', ''w''), (''ee'', ''i''), (''ea'', ''i''), (''oo'', ''u''), (''ou'', ''u''),
      (''ai'', ''a''), (''ay'', ''a''), (''ey'', ''i''), (''ie'', ''i''), (''y'', ''i'')]"

definition simplify_phonetic :: "string \<Rightarrow> string" where
  "simplify_phonetic s =
     (let n = foldl (\<lambda>acc (old, new). replace acc old new) (lower s) replacements
      in if length n > 1 then hd n # filter (\<lambda>c. c \<notin> set ''aeiou'') (tl n) else n)"

text \<open>The phonetic component of \<^verbatim>\<open>_calculate_similarity\<close> (the assignment to
  \<^verbatim>\<open>phonetic_similarity\<close> and the \<^verbatim>\<open>if\<close> that follows it).\<close>

definition phonetic_similarity :: "string \<Rightarrow> string \<Rightarrow> real" where
  "phonetic_similarity name1 name2 =
     (let phonetic1 = simplify_phonetic name1;
          phonetic2 = simplify_phonetic name2;
          assigned = (if phonetic1 = phonetic2 then 1 else 0)
      in if startswith phonetic1 phonetic2 \<or> startswith phonetic2 phonetic1 then 7 / 10
         else assigned)"

text \<open>The loop that counts the common prefix and stops at the first difference.\<close>

fun prefix_len :: "string \<Rightarrow> string \<Rightarrow> nat" where
  "prefix_len (a # as) (b # bs) = (if a = b then 1 + prefix_len as bs else 0)"
| "prefix_len [] bs = 0"
| "prefix_len as [] = 0"

definition calculate_similarity :: "string \<Rightarrow> string \<Rightarrow> real" where
  "calculate_similarity name1 name2 =
     (let edit_distance = levenshtein_distance name1 name2;
          max_len = max (length name1) (length name2);
          edit_similarity = (if max_len > 0 then 1 - real edit_distance / real max_len else 1);
          prefix_similarity = (if max_len > 0 then real (prefix_len name1 name2) / real max_len else 0)
      in edit_similarity * (4 / 10) + phonetic_similarity name1 name2 * (4 / 10)
         + prefix_similarity * (2 / 10))"

definition get_similarity_reason :: "string \<Rightarrow> string \<Rightarrow> string" where
  "get_similarity_reason name1 name2 =
     (if name1 = name2 then ''identical''
      else if startswith name1 name2 \<or> startswith name2 name1 then ''shares prefix''
      else if simplify_phonetic name1 = simplify_phonetic name2 then ''sounds similar''
      else if levenshtein_distance name1 name2 \<le> 2 then ''very close spelling''
      else if levenshtein_distance name1 name2 \<le> 4 then ''similar spelling''
      else ''partially similar'')"

section \<open>Dictionaries\<close>

text \<open>\<^verbatim>\<open>d[k] = v\<close>: an existing key keeps its position and takes the new value, a new key
  is appended. A dictionary literal or comprehension is the empty dictionary after one
  such assignment per pair, in order.\<close>

fun dict_set :: "('k, 'v) dict \<Rightarrow> 'k \<Rightarrow> 'v \<Rightarrow> ('k, 'v) dict" where
  "dict_set [] k v = [(k, v)]"
| "dict_set ((k', v') # d) k v =
     (if k' = k then (k', v) # d else (k', v') # dict_set d k v)"

definition dict_of_pairs :: "('k \<times> 'v) list \<Rightarrow> ('k, 'v) dict" where
  "dict_of_pairs ps = foldl (\<lambda>d (k, v). dict_set d k v) [] ps"

text \<open>\<^verbatim>\<open>d.get(k)\<close> is \<open>map_of d k\<close>, the keys in iteration order are \<open>map fst d\<close>, and
  \<^verbatim>\<open>d.values()\<close> is \<open>map snd d\<close>.\<close>

section \<open>Similar companies\<close>

text \<open>The dictionary literal \<^verbatim>\<open>known_companies\<close> of \<^verbatim>\<open>_find_similar_static\<close>, with its
  repeated keys (\<^verbatim>\<open>notion\<close>, \<^verbatim>\<open>airtable\<close>) as written.\<close>

definition known_companies :: "(string, string) dict" where
  "known_companies = dict_of_pairs
     [(''stripe'', ''payments''), (''shopify'', ''e-commerce''), (''slack'', ''communication''),
      (''zoom'', ''video conferencing''), (''notion'', ''productivity''), (''figma'', ''design''),
      (''canva'', ''design''), (''asana'', ''project management''),
      (''trello'', ''project management''), (''airtable'', ''database''),
      (''hubspot'', ''marketing''), (''mailchimp'', ''email marketing''),
      (''twilio'', ''communication APIs''), (''plaid'', ''fintech''), (''brex'', ''fintech''),
      (''ramp'', ''fintech''), (''gusto'', ''HR/payroll''), (''rippling'', ''HR''),
      (''deel'', ''HR''), (''lattice'', ''HR''), (''lever'', ''recruiting''),
      (''greenhouse'', ''recruiting''), (''datadog'', ''monitoring''), (''snowflake'', ''data''),
      (''databricks'', ''data''), (''confluent'', ''data streaming''), (''vercel'', ''hosting''),
      (''netlify'', ''hosting''), (''supabase'', ''database''), (''firebase'', ''backend''),
      (''mongodb'', ''database''), (''elastic'', ''search''), (''algolia'', ''search''),
      (''auth0'', ''authentication''), (''okta'', ''identity''),
      (''cloudflare'', ''infrastructure''), (''fastly'', ''CDN''), (''segment'', ''analytics''),
      (''amplitude'', ''analytics''), (''mixpanel'', ''analytics''),
      (''intercom'', ''customer support''), (''zendesk'', ''customer support''),
      (''freshworks'', ''customer support''), (''calendly'', ''scheduling''), (''loom'', ''video''),
      (''miro'', ''collaboration''), (''linear'', ''project management''),
      (''monday'', ''project management''), (''clickup'', ''project management''),
      (''anthropic'', ''AI''), (''openai'', ''AI''), (''cohere'', ''AI''), (''stability'', ''AI''),
      (''midjourney'', ''AI''), (''jasper'', ''AI''), (''copy.ai'', ''AI''),
      (''grammarly'', ''writing''), (''notion'', ''productivity''), (''coda'', ''productivity''),
      (''airtable'', ''productivity'')]"

text \<open>\<^verbatim>\<open>list.sort(key=lambda x: x.similarity_score, reverse=True)\<close>: a stable sort, highest
  score first, equal scores in their given order.\<close>

definition sort_by_score_desc :: "SimilarCompany list \<Rightarrow> SimilarCompany list" where
  "sort_by_score_desc ms = sort_key (\<lambda>x. - similarity_score x) ms"

text \<open>The loop of \<^verbatim>\<open>_find_similar_static\<close> over \<^verbatim>\<open>known_companies.items()\<close>.\<close>

fun static_loop :: "string \<Rightarrow> SimilarCompany list \<Rightarrow> (string \<times> string) list \<Rightarrow> SimilarCompany list" where
  "static_loop name_lower acc [] = acc"
| "static_loop name_lower acc ((company, ind) # rest) =
     (let similarity = calculate_similarity name_lower company
      in if similarity > 5 / 10
         then static_loop name_lower
                (acc @ [\<lparr>company_name = title company, similarity_score = similarity,
                         industry = ind, reason = get_similarity_reason name_lower company\<rparr>]) rest
         else static_loop name_lower acc rest)"

definition find_similar_static :: "string \<Rightarrow> SimilarCompaniesResult" where
  "find_similar_static nm =
     (let name_lower = lower nm;
          found = static_loop name_lower [] known_companies;
          top = take 5 (sort_by_score_desc found);
          risk = (if top = [] then ''low''
                  else if list_ex (\<lambda>m. similarity_score m > 8 / 10) top then ''high''
                  else if list_ex (\<lambda>m. similarity_score m > 6 / 10) top then ''medium''
                  else ''low'')
      in \<lparr>matches = top, confusion_risk = risk\<rparr>)"

text \<open>The two loops of \<^verbatim>\<open>_merge_similar_results\<close> share \<^verbatim>\<open>seen_names\<close> and
  \<^verbatim>\<open>merged_matches\<close>.\<close>

fun merge_loop :: "string set \<times> SimilarCompany list \<Rightarrow> SimilarCompany list
    \<Rightarrow> string set \<times> SimilarCompany list" where
  "merge_loop (seen_names, merged_matches) [] = (seen_names, merged_matches)"
| "merge_loop (seen_names, merged_matches) (m # ms) =
     (let name_lower = lower (company_name m)
      in if name_lower \<notin> seen_names
         then merge_loop (insert name_lower seen_names, merged_matches @ [m]) ms
         else merge_loop (seen_names, merged_matches) ms)"

definition risk_order :: "(string, nat) dict" where
  "risk_order = [(''low'', 0), (''medium'', 1), (''high'', 2)]"

text \<open>\<^verbatim>\<open>risk_order.get(r, 0)\<close>.\<close>

definition risk_rank :: "string \<Rightarrow> nat" where
  "risk_rank r = (case map_of risk_order r of Some n \<Rightarrow> n | None \<Rightarrow> 0)"

definition merge_similar_results :: "SimilarCompaniesResult \<Rightarrow> SimilarCompaniesResult
    \<Rightarrow> SimilarCompaniesResult" where
  "merge_similar_results static llm =
     (let after_llm = merge_loop ({}, []) (matches llm);
          after_static = merge_loop after_llm (matches static);
          top = take 5 (sort_by_score_desc (snd after_static));
          risk = (if risk_rank (confusion_risk llm) > risk_rank (confusion_risk static)
                  then confusion_risk llm else confusion_risk static)
      in \<lparr>matches = top, confusion_risk = risk\<rparr>)"

datatype exn = Exception string

text \<open>The world outside the program. \<open>whois_lookup\<close> is the module function of that name
  (it catches every exception itself and then returns \<^verbatim>\<open>None\<close>); \<open>api_key\<close> is
  \<^verbatim>\<open>os.environ.get("ANTHROPIC_API_KEY")\<close>; \<open>find_similar_with_llm\<close> and
  \<open>analyze_with_personas\<close> are the two language-model calls, which return or raise.\<close>

record world =
  whois_lookup :: "string \<Rightarrow> string option"
  api_key :: "string option"
  find_similar_with_llm :: "string \<Rightarrow> exn + SimilarCompaniesResult"
  analyze_with_personas :: "string \<Rightarrow> string option \<Rightarrow> exn + PerceptionResult"

text \<open>Truthiness of an optional string: \<^verbatim>\<open>None\<close> and the empty string are false.\<close>

definition truthy :: "string option \<Rightarrow> bool" where
  "truthy v = (case v of None \<Rightarrow> False | Some s \<Rightarrow> s \<noteq> [])"

text \<open>\<^verbatim>\<open>find_similar_companies\<close> of \<^verbatim>\<open>brandval\<close>. The \<^verbatim>\<open>try\<close> block covers the call and the
  merge; its handler prints the exception and falls through to the static result. The
  result is a sum so that an escaping exception would be visible as \<open>Inl\<close>. An answer of
  the language model that does not parse into a \<^verbatim>\<open>SimilarCompaniesResult\<close> is an exception
  of the call, hence \<open>Inl\<close> in \<open>find_similar_with_llm\<close>.\<close>

definition find_similar_companies :: "world \<Rightarrow> string \<Rightarrow> exn + SimilarCompaniesResult" where
  "find_similar_companies w nm =
     (let static_result = find_similar_static nm
      in if truthy (api_key w)
         then (case find_similar_with_llm w nm of
                 Inr llm_result \<Rightarrow> Inr (merge_similar_results static_result llm_result)
               | Inl e \<Rightarrow> Inr static_result)
         else Inr static_result)"

text \<open>\<^verbatim>\<open>find_similar_companies\<close> of \<^verbatim>\<open>namecast\<close>: no static pass.\<close>

definition nc_find_similar_companies :: "world \<Rightarrow> string \<Rightarrow> exn + SimilarCompaniesResult" where
  "nc_find_similar_companies w nm =
     (if truthy (api_key w)
      then (case find_similar_with_llm w nm of
              Inr llm_result \<Rightarrow> Inr llm_result
            | Inl e \<Rightarrow> Inr \<lparr>matches = [], confusion_risk = ''low''\<rparr>)
      else Inr \<lparr>matches = [], confusion_risk = ''low''\<rparr>)"

section \<open>Pronunciation\<close>

text \<open>The loop of \<^verbatim>\<open>_count_syllables\<close>, carrying \<^verbatim>\<open>prev_was_vowel\<close> and \<^verbatim>\<open>count\<close>.\<close>

fun syllable_loop :: "bool \<Rightarrow> nat \<Rightarrow> string \<Rightarrow> nat" where
  "syllable_loop prev_was_vowel count [] = count"
| "syllable_loop prev_was_vowel count (c # cs) =
     (let is_vowel = (c \<in> set ''aeiouy'')
      in syllable_loop is_vowel (if is_vowel \<and> \<not> prev_was_vowel then count + 1 else count) cs)"

definition count_syllables :: "string \<Rightarrow> nat" where
  "count_syllables word =
     (let w = lower word;
          count = syllable_loop False 0 w;
          count = (if endswith w ''e'' \<and> count > 1 then count - 1 else count)
      in max 1 count)"

definition unusual :: "string list" where
  "unusual = [''ph'', ''gh'', ''ough'', ''tion'', ''sion'', ''xc'', ''cq'']"

definition is_phonetic :: "string \<Rightarrow> bool" where
  "is_phonetic nm = (\<not> list_ex (\<lambda>u. contains (lower nm) u) unusual)"

definition difficult_patterns :: "string list" where
  "difficult_patterns = [''xw'', ''zx'', ''ptl'', ''tch'', ''sch'']"

text \<open>The loop of \<^verbatim>\<open>analyze_pronunciation\<close> over \<^verbatim>\<open>difficult_patterns\<close>.\<close>

fun penalty_loop :: "string \<Rightarrow> real \<Rightarrow> string list \<Rightarrow> real" where
  "penalty_loop nm base_score [] = base_score"
| "penalty_loop nm base_score (pattern # rest) =
     (if contains (lower nm) pattern then penalty_loop nm (base_score - 15 / 10) rest
      else penalty_loop nm base_score rest)"

definition syllable_base_score :: "nat \<Rightarrow> real" where
  "syllable_base_score n =
     (if n \<le> 2 then 9 else if n \<le> 3 then 7 else if n \<le> 4 then 5 else 3)"

definition analyze_pronunciation :: "string \<Rightarrow> PronunciationResult" where
  "analyze_pronunciation nm =
     (let n = count_syllables nm;
          base_score = penalty_loop nm (syllable_base_score n) difficult_patterns;
          spelling = (if is_phonetic nm then ''easy''
                      else if list_ex (\<lambda>c. contains (lower nm) c) [''ph'', ''gh'', ''ough'']
                      then ''hard'' else ''medium'')
      in \<lparr>score = max 0 (min 10 base_score), syllables = n, spelling_difficulty = spelling\<rparr>)"

definition score_pronunciation :: "string \<Rightarrow> real" where
  "score_pronunciation nm = score (analyze_pronunciation nm)"

section \<open>International check\<close>

definition languages :: "string list" where
  "languages = [''spanish'', ''french'', ''german'', ''mandarin'', ''japanese'', ''portuguese'',
     ''arabic'']"

definition problematic :: "(string, (string, string) dict) dict" where
  "problematic =
     [(''mist'', [(''german'', ''manure/dung'')]),
      (''fart'', [(''scandinavian'', ''speed'')]),
      (''nova'', [(''spanish'', ''doesn'' @ [CHR 0x27] @ ''t go (no va)'')])]"

text \<open>The body of the loop of \<^verbatim>\<open>check_international\<close> for one language.\<close>

definition international_issue :: "string \<Rightarrow> string \<Rightarrow> string option" where
  "international_issue name_lower lang =
     (case map_of problematic name_lower of
        None \<Rightarrow> None
      | Some by_language \<Rightarrow> map_of by_language lang)"

definition check_international :: "string \<Rightarrow> (string, InternationalEntry) dict" where
  "check_international nm =
     (let name_lower = lower nm
      in foldl (\<lambda>result lang.
                  let issue = international_issue name_lower lang
                  in dict_set result lang \<lparr>has_issue = (issue \<noteq> None), meaning = issue\<rparr>)
           [] languages)"

section \<open>Dimension scorers\<close>

definition calc_domain_score :: "(string, bool) dict \<Rightarrow> real" where
  "calc_domain_score domains =
     (if domains = [] then 0
      else let score0 = (if map_of domains ''.com'' = Some True then 50 else 0);
               other_tlds = filter (\<lambda>tld. tld \<noteq> ''.com'') (map fst domains);
               available_others =
                 length (filter (\<lambda>tld. map_of domains tld = Some True) other_tlds)
           in if other_tlds \<noteq> []
              then score0 + (real available_others / real (length other_tlds)) * 50
              else score0)"

definition calc_social_score :: "(string, bool) dict \<Rightarrow> real" where
  "calc_social_score social =
     (if social = [] then 0
      else let available = length (filter (\<lambda>v. v) (map snd social))
           in (real available / real (length social)) * 100)"

definition calc_trademark_score :: "TrademarkResult \<Rightarrow> real" where
  "calc_trademark_score trademark =
     (if risk_level trademark = ''low'' then 100
      else if risk_level trademark = ''medium'' then 50
      else 10)"

definition calc_international_score :: "(string, InternationalEntry) dict \<Rightarrow> real" where
  "calc_international_score international =
     (if international = [] then 100
      else let issues = length (filter has_issue (map snd international))
           in real_of_int (max 0 (100 - int issues * 20)))"

definition calc_similar_companies_score :: "SimilarCompaniesResult \<Rightarrow> real" where
  "calc_similar_companies_score similar =
     (if matches similar = [] then 100
      else if confusion_risk similar = ''high'' then 20
      else if confusion_risk similar = ''medium'' then 60
      else 85)"

section \<open>The evaluation\<close>

record 's EvaluationResult =
  brand_name :: string
  overall_score :: real
  domain_score :: real
  social_score :: real
  trademark_score :: real
  pronunciation_score :: real
  international_score :: real
  similar_companies_score :: real
  domains :: "(string, bool) dict"
  social :: "(string, 's) dict"
  trademark :: TrademarkResult
  pronunciation :: PronunciationResult
  international :: "(string, InternationalEntry) dict"
  perception :: PerceptionResult
  similar_companies :: SimilarCompaniesResult

definition DEFAULT_TLDS :: "string list" where
  "DEFAULT_TLDS = [''.com'', ''.io'', ''.co'', ''.ai'', ''.app'']"

definition DEFAULT_PLATFORMS :: "string list" where
  "DEFAULT_PLATFORMS = [''twitter'', ''instagram'', ''linkedin'', ''tiktok'', ''github'']"

definition check_domains :: "world \<Rightarrow> string \<Rightarrow> (string, bool) dict" where
  "check_domains w nm =
     (let name_lower = lower nm
      in foldl (\<lambda>result tld. dict_set result tld (whois_lookup w (name_lower @ tld) = None))
           [] DEFAULT_TLDS)"

definition check_social :: "string \<Rightarrow> (string, bool) dict" where
  "check_social nm = dict_of_pairs (map (\<lambda>platform. (platform, True)) DEFAULT_PLATFORMS)"

definition check_trademark :: "string \<Rightarrow> TrademarkResult" where
  "check_trademark nm = \<lparr>risk_level = ''low'', tm_matches = []\<rparr>"

text \<open>\<^verbatim>\<open>analyze_perception\<close>: with an API key the persona analysis is tried, and any
  exception falls through to the placeholder.\<close>

definition analyze_perception :: "world \<Rightarrow> string \<Rightarrow> string option \<Rightarrow> PerceptionResult" where
  "analyze_perception w nm mission =
     (let placeholder = \<lparr>evokes = ''professional, modern'',
                          industry_association = [''technology'', ''business''],
                          memorability = ''high'',
                          mission_alignment = (if truthy mission then Some 7 else None)\<rparr>
      in if truthy (api_key w)
         then (case analyze_with_personas w nm mission of
                 Inr analysis \<Rightarrow>
                   \<lparr>evokes = evokes analysis,
                    industry_association = industry_association analysis,
                    memorability = memorability analysis,
                    mission_alignment = mission_alignment analysis\<rparr>
               | Inl e \<Rightarrow> placeholder)
         else placeholder)"

text \<open>The weighted sum of \<^verbatim>\<open>evaluate\<close>, in the order the source adds it up.\<close>

definition weighted_overall :: "real \<Rightarrow> real \<Rightarrow> real \<Rightarrow> real \<Rightarrow> real \<Rightarrow> real \<Rightarrow> real" where
  "weighted_overall d_score s_score t_score p_score i_score c_score =
     d_score * (20 / 100) + s_score * (10 / 100) + t_score * (20 / 100) + p_score * (15 / 100)
     + i_score * (15 / 100) + c_score * (20 / 100)"

text \<open>\<^verbatim>\<open>evaluate\<close> of \<^verbatim>\<open>brandval\<close>.\<close>

definition evaluate :: "world \<Rightarrow> string \<Rightarrow> string option \<Rightarrow> exn + bool EvaluationResult" where
  "evaluate w nm mission =
     (let doms = check_domains w nm;
          soc = check_social nm;
          tm = check_trademark nm;
          pron = analyze_pronunciation nm;
          intl = check_international nm;
          perc = analyze_perception w nm mission
      in case find_similar_companies w nm of
           Inl e \<Rightarrow> Inl e
         | Inr sim \<Rightarrow>
             (let d_score = calc_domain_score doms;
                  s_score = calc_social_score soc;
                  t_score = calc_trademark_score tm;
                  p_score = score pron * 10;
                  i_score = calc_international_score intl;
                  c_score = calc_similar_companies_score sim
              in Inr \<lparr>brand_name = nm,
                      overall_score = weighted_overall d_score s_score t_score p_score i_score c_score,
                      domain_score = d_score, social_score = s_score, trademark_score = t_score,
                      pronunciation_score = p_score, international_score = i_score,
                      similar_companies_score = c_score,
                      domains = doms, social = soc, trademark = tm, pronunciation = pron,
                      international = intl, perception = perc, similar_companies = sim\<rparr>))"

section \<open>The namecast variant\<close>

record SocialHandleResult =
  platform :: string
  exact_available :: bool
  best_alternative :: "string option"
  alternatives_checked :: "string list"

text \<open>A value of the namecast \<^verbatim>\<open>social\<close> dictionary: a \<^verbatim>\<open>SocialHandleResult\<close>, or a bare
  boolean of the older format that \<^verbatim>\<open>_calc_social_score\<close> still accepts.\<close>

datatype social_value = Handle SocialHandleResult | Legacy bool

text \<open>\<^verbatim>\<open>domain.rsplit(".", 1)\<close> for a string that holds a dot: the parts before and after
  the last dot.\<close>

definition rsplit_dot :: "string \<Rightarrow> string \<times> string" where
  "rsplit_dot s =
     (let r = rev s
      in (rev (drop 1 (dropWhile (\<lambda>c. c \<noteq> CHR ''.'') r)), rev (takeWhile (\<lambda>c. c \<noteq> CHR ''.'') r)))"

fun unique_loop :: "string \<Rightarrow> string set \<times> string list \<Rightarrow> string list \<Rightarrow> string list" where
  "unique_loop nm (seen, unique) [] = unique"
| "unique_loop nm (seen, unique) (alt # rest) =
     (if alt \<notin> seen \<and> alt \<noteq> nm then unique_loop nm (insert alt seen, unique @ [alt]) rest
      else unique_loop nm (seen, unique) rest)"

definition generate_handle_alternatives :: "string \<Rightarrow> string option \<Rightarrow> string list" where
  "generate_handle_alternatives nm planned_domain =
     (let from_domain =
            (case planned_domain of
               None \<Rightarrow> []
             | Some pd \<Rightarrow>
                 if pd = [] then []
                 else let domain = replace (replace pd ''https://'' []) ''http://'' []
                      in if contains domain ''.''
                         then (case rsplit_dot domain of
                                 (base, tld) \<Rightarrow>
                                   [base @ tld, base @ ''_'' @ tld, base @ ''.'' @ tld,
                                    ''get'' @ base, base @ ''hq'', base @ ''app''])
                         else []);
          alternatives = from_domain @
            [nm @ ''hq'', nm @ ''app'', ''get'' @ nm, ''try'' @ nm, ''use'' @ nm, nm @ ''_'',
             ''_'' @ nm, nm @ ''io'', nm @ ''ai'', ''the'' @ nm, nm @ ''official'']
      in take 10 (unique_loop nm ({}, []) alternatives))"

definition nc_check_social :: "string \<Rightarrow> string option \<Rightarrow> (string, social_value) dict" where
  "nc_check_social nm planned_domain =
     (let name_lower = lower nm;
          alternatives = generate_handle_alternatives name_lower planned_domain
      in foldl (\<lambda>results p.
                  dict_set results p
                    (Handle \<lparr>platform = p, exact_available = True,
                             best_alternative =
                               (if alternatives \<noteq> [] then Some (hd alternatives) else None),
                             alternatives_checked = name_lower # alternatives\<rparr>))
           [] DEFAULT_PLATFORMS)"

text \<open>The loop of the namecast \<^verbatim>\<open>_calc_social_score\<close> over \<^verbatim>\<open>social.values()\<close>.\<close>

fun social_loop :: "nat \<Rightarrow> social_value list \<Rightarrow> nat" where
  "social_loop total_score [] = total_score"
| "social_loop total_score (Handle r # rest) =
     (if exact_available r then social_loop (total_score + 100) rest
      else if truthy (best_alternative r) then social_loop (total_score + 70) rest
      else social_loop total_score rest)"
| "social_loop total_score (Legacy b # rest) =
     social_loop (total_score + (if b then 100 else 0)) rest"

definition nc_calc_social_score :: "(string, social_value) dict \<Rightarrow> real" where
  "nc_calc_social_score soc =
     (if soc = [] then 0
      else real (social_loop 0 (map snd soc)) / real (length soc))"

text \<open>\<^verbatim>\<open>evaluate\<close> of \<^verbatim>\<open>namecast\<close>.\<close>

definition nc_evaluate :: "world \<Rightarrow> string \<Rightarrow> string option \<Rightarrow> string option
    \<Rightarrow> exn + social_value EvaluationResult" where
  "nc_evaluate w nm mission planned_domain =
     (let doms = check_domains w nm;
          soc = nc_check_social nm planned_domain;
          tm = check_trademark nm;
          pron = analyze_pronunciation nm;
          intl = check_international nm;
          perc = analyze_perception w nm mission
      in case nc_find_similar_companies w nm of
           Inl e \<Rightarrow> Inl e
         | Inr sim \<Rightarrow>
             (let d_score = calc_domain_score doms;
                  s_score = nc_calc_social_score soc;
                  t_score = calc_trademark_score tm;
                  p_score = score pron * 10;
                  i_score = calc_international_score intl;
                  c_score = calc_similar_companies_score sim
              in Inr \<lparr>brand_name = nm,
                      overall_score = weighted_overall d_score s_score t_score p_score i_score c_score,
                      domain_score = d_score, social_score = s_score, trademark_score = t_score,
                      pronunciation_score = p_score, international_score = i_score,
                      similar_companies_score = c_score,
                      domains = doms, social = soc, trademark = tm, pronunciation = pron,
                      international = intl, perception = perc, similar_companies = sim\<rparr>))"

section \<open>The specification's wording of two operations\<close>

text \<open>The merged match list as the specification describes it: the oracle's matches with
  only the first occurrence of each lower-cased name kept, then the static matches whose
  lower-cased name is not yet present, appended one by one.\<close>

fun keep_first_by_name :: "SimilarCompany list \<Rightarrow> SimilarCompany list" where
  "keep_first_by_name [] = []"
| "keep_first_by_name (m # ms) =
     m # keep_first_by_name
           (filter (\<lambda>x. lower (company_name x) \<noteq> lower (company_name m)) ms)"

fun append_absent :: "SimilarCompany list \<Rightarrow> SimilarCompany list \<Rightarrow> SimilarCompany list" where
  "append_absent merged [] = merged"
| "append_absent merged (m # ms) =
     (if lower (company_name m) \<in> set (map (\<lambda>x. lower (company_name x)) merged)
      then append_absent merged ms
      else append_absent (merged @ [m]) ms)"

definition spec_combined :: "SimilarCompaniesResult \<Rightarrow> SimilarCompaniesResult \<Rightarrow> SimilarCompany list" where
  "spec_combined static llm = append_absent (keep_first_by_name (matches llm)) (matches static)"

text \<open>The pronunciation score as the specification describes it: 1.5 off for every
  occurrence of a difficult cluster, an occurrence being a position of the lower-cased
  name at which the cluster starts.\<close>

fun count_occurrences :: "string \<Rightarrow> string \<Rightarrow> nat" where
  "count_occurrences [] p = 0"
| "count_occurrences (c # cs) p =
     (if startswith (c # cs) p then 1 else 0) + count_occurrences cs p"

definition spec_pronunciation_score :: "string \<Rightarrow> real" where
  "spec_pronunciation_score nm =
     max 0 (min 10 (syllable_base_score (count_syllables nm)
       - (15 / 10) * real (sum_list (map (count_occurrences (lower nm)) difficult_patterns))))"

section \<open>An auxiliary function\<close>

text \<open>The distance between two prefixes of one string, of lengths \<open>i\<close> and \<open>j\<close>: the cell
  that the Levenshtein table holds at row \<open>i\<close> and column \<open>j\<close> when both strings are the
  same.\<close>

definition diag_dist :: "nat \<Rightarrow> nat \<Rightarrow> nat" where
  "diag_dist i j = (if i \<le> j then j - i else i - j)"

section \<open>Sample inputs\<close>

text \<open>A world in which the API key is set and both language-model calls time out; only
  \<^verbatim>\<open>stripe.com\<close> is registered.\<close>

definition world_without_oracle :: world where
  "world_without_oracle =
     \<lparr>whois_lookup = (\<lambda>d. if d = ''stripe.com'' then Some ''stripe.com'' else None),
      api_key = Some ''key'',
      find_similar_with_llm = (\<lambda>n. Inl (Exception ''timeout'')),
      analyze_with_personas = (\<lambda>n m. Inl (Exception ''timeout''))\<rparr>"

text \<open>Worlds for the three domain situations: nothing registered, everything registered,
  everything but the \<^verbatim>\<open>.com\<close> domain registered.\<close>

definition world_all_available :: world where
  "world_all_available = world_without_oracle\<lparr>whois_lookup := (\<lambda>d. None)\<rparr>"

definition world_none_available :: world where
  "world_none_available = world_without_oracle\<lparr>whois_lookup := (\<lambda>d. Some d)\<rparr>"

definition world_only_com :: world where
  "world_only_com =
     world_without_oracle\<lparr>whois_lookup := (\<lambda>d. if endswith d ''.com'' then None else Some d)\<rparr>"

definition sample_domains :: "(string, bool) dict" where
  "sample_domains = [(''.com'', True), (''.io'', False), (''.co'', True)]"

text \<open>An oracle result that names Stripe twice (in two spellings of case), and a static
  result that names Stripe again and one more company.\<close>

definition sample_llm :: SimilarCompaniesResult where
  "sample_llm =
     \<lparr>matches = [\<lparr>company_name = ''Stripe'', similarity_score = 9 / 10,
                   industry = ''payments'', reason = ''visual''\<rparr>,
                 \<lparr>company_name = ''Strype'', similarity_score = 95 / 100,
                   industry = ''design'', reason = ''phonetic''\<rparr>,
                 \<lparr>company_name = ''STRIPE'', similarity_score = 99 / 100,
                   industry = ''payments'', reason = ''identical''\<rparr>],
      confusion_risk = ''medium''\<rparr>"

definition sample_static :: SimilarCompaniesResult where
  "sample_static =
     \<lparr>matches = [\<lparr>company_name = ''Stripe'', similarity_score = 22 / 25,
                   industry = ''payments'', reason = ''identical''\<rparr>,
                 \<lparr>company_name = ''Snipe'', similarity_score = 6 / 10,
                   industry = ''hunting'', reason = ''similar spelling''\<rparr>],
      confusion_risk = ''high''\<rparr>"

section \<open>Evaluations used below\<close>

lemma find_similar_static_Stripe:
  "find_similar_static ''Stripe'' =
     \<lparr>matches = [\<lparr>company_name = ''Stripe'', similarity_score = 22 / 25,
                   industry = ''payments'', reason = ''identical''\<rparr>],
      confusion_risk = ''high''\<rparr>"
  by code_simp

lemma find_similar_static_Data:
  "find_similar_static ''Data'' =
     \<lparr>matches = [\<lparr>company_name = ''Datadog'', similarity_score = 109 / 175,
                   industry = ''monitoring'', reason = ''shares prefix''\<rparr>,
                 \<lparr>company_name = ''Databricks'', similarity_score = 13 / 25,
                   industry = ''data'', reason = ''shares prefix''\<rparr>],
      confusion_risk = ''medium''\<rparr>"
  by code_simp

lemma merge_samples:
  "spec_combined sample_static sample_llm =
     [\<lparr>company_name = ''Stripe'', similarity_score = 9 / 10,
        industry = ''payments'', reason = ''visual''\<rparr>,
      \<lparr>company_name = ''Strype'', similarity_score = 95 / 100,
        industry = ''design'', reason = ''phonetic''\<rparr>,
      \<lparr>company_name = ''Snipe'', similarity_score = 6 / 10,
        industry = ''hunting'', reason = ''similar spelling''\<rparr>]"
  "merge_similar_results sample_static sample_llm =
     \<lparr>matches =
        [\<lparr>company_name = ''Strype'', similarity_score = 95 / 100,
           industry = ''design'', reason = ''phonetic''\<rparr>,
         \<lparr>company_name = ''Stripe'', similarity_score = 9 / 10,
           industry = ''payments'', reason = ''visual''\<rparr>,
         \<lparr>company_name = ''Snipe'', similarity_score = 6 / 10,
           industry = ''hunting'', reason = ''similar spelling''\<rparr>],
      confusion_risk = ''high''\<rparr>"
  by code_simp+

section \<open>The phonetic component and self-similarity\<close>

lemma phonetic_similarity_cases:
  "phonetic_similarity a b =
     (if startswith (simplify_phonetic a) (simplify_phonetic b)
         \<or> startswith (simplify_phonetic b) (simplify_phonetic a) then 7 / 10 else 0)"
  by (auto simp: phonetic_similarity_def Let_def startswith_def)

lemma phonetic_similarity_self: "phonetic_similarity s s = 7 / 10"
  by (simp add: phonetic_similarity_def startswith_def Let_def)

text \<open>
  Claim C2. The phonetic component is meant to be 1.0 for equal phonetic keys, 0.7 when
  one key is a proper prefix of the other and 0.0 otherwise. In the code the value 1.0
  assigned for equal keys is overwritten: a key is a prefix of itself, so the test that
  follows the assignment sets 0.7. The component is therefore 0.7 whenever one key is a
  prefix of the other, equal keys included, and 0.0 otherwise; it is never 1.0. For
  \<^verbatim>\<open>stripey\<close> and \<^verbatim>\<open>stripe\<close>, whose keys are both \<^verbatim>\<open>strp\<close>, it is 0.7.
\<close>

theorem phonetic_similarity_equal_keys_is_07:
  "phonetic_similarity a b =
     (if startswith (simplify_phonetic a) (simplify_phonetic b)
         \<or> startswith (simplify_phonetic b) (simplify_phonetic a) then 7 / 10 else 0)
   \<and> phonetic_similarity a b \<noteq> 1
   \<and> simplify_phonetic ''stripey'' = ''strp'' \<and> simplify_phonetic ''stripe'' = ''strp''
   \<and> phonetic_similarity ''stripey'' ''stripe'' = 7 / 10"
proof -
  have "simplify_phonetic ''stripey'' = ''strp'' \<and> simplify_phonetic ''stripe'' = ''strp''
      \<and> phonetic_similarity ''stripey'' ''stripe'' = 7 / 10"
    by code_simp
  then show ?thesis
    using phonetic_similarity_cases [of a b] by simp
qed

text \<open>When both strings are the same, row \<open>i\<close> of the Levenshtein table holds
  \<open>diag_dist i j\<close> in column \<open>j\<close>; the last cell of the last row is 0.\<close>

lemma enumerate_drop_step:
  "j < length s \<Longrightarrow> enumerate j (drop j s) = (j, s ! j) # enumerate (Suc j) (drop (Suc j) s)"
  by (simp add: Cons_nth_drop_Suc [symmetric])

lemma levenshtein_inner_same:
  assumes "i < length s" and "j \<le> length s"
    and "crow = map (diag_dist (Suc i)) [0 ..< Suc j]"
    and "prow = map (diag_dist i) [0 ..< Suc (length s)]"
  shows "levenshtein_inner (s ! i) prow crow (enumerate j (drop j s))
           = map (diag_dist (Suc i)) [0 ..< Suc (length s)]"
  using assms
proof (induction "length s - j" arbitrary: j crow)
  case 0
  then show ?case by simp
next
  case (Suc k)
  then have j: "j < length s" by simp
  have pj1: "prow ! (j + 1) = diag_dist i (Suc j)"
    using Suc.prems(4) j by (simp add: nth_append del: upt_Suc)
  have pj: "prow ! j = diag_dist i j"
    using Suc.prems(4) j by (simp add: nth_append del: upt_Suc)
  have cj: "crow ! j = diag_dist (Suc i) j"
    using Suc.prems(3) by (simp add: nth_append del: upt_Suc)
  have cell: "min (prow ! (j + 1) + 1)
                (min (crow ! j + 1) (prow ! j + (if s ! i \<noteq> s ! j then 1 else 0)))
      = diag_dist (Suc i) (Suc j)"
  proof (cases "i = j")
    case True
    then show ?thesis
      unfolding pj1 pj cj by (simp add: diag_dist_def)
  next
    case False
    then show ?thesis
      unfolding pj1 pj cj by (auto simp: diag_dist_def min_def)
  qed
  have next_row: "crow @ [diag_dist (Suc i) (Suc j)] = map (diag_dist (Suc i)) [0 ..< Suc (Suc j)]"
    using Suc.prems(3) by simp
  have "levenshtein_inner (s ! i) prow crow (enumerate j (drop j s))
      = levenshtein_inner (s ! i) prow (crow @ [diag_dist (Suc i) (Suc j)])
          (enumerate (Suc j) (drop (Suc j) s))"
    unfolding enumerate_drop_step [OF j] using cell by (simp add: Let_def)
  also have "\<dots> = map (diag_dist (Suc i)) [0 ..< Suc (length s)]"
    using Suc.hyps(1) [of "Suc j" "crow @ [diag_dist (Suc i) (Suc j)]"] Suc.hyps(2)
      Suc.prems(1,4) j next_row
    by simp
  finally show ?case .
qed

lemma levenshtein_outer_same:
  assumes "i \<le> length s"
  shows "levenshtein_outer (map (diag_dist i) [0 ..< Suc (length s)]) (enumerate i (drop i s)) s
           = map (diag_dist (length s)) [0 ..< Suc (length s)]"
  using assms
proof (induction "length s - i" arbitrary: i)
  case 0
  then show ?case by simp
next
  case (Suc k)
  then have i: "i < length s" by simp
  have start: "[i + 1] = map (diag_dist (Suc i)) [0 ..< Suc 0]"
    by (simp add: diag_dist_def)
  have row: "levenshtein_inner (s ! i) (map (diag_dist i) [0 ..< Suc (length s)]) [i + 1]
               (enumerate 0 s)
      = map (diag_dist (Suc i)) [0 ..< Suc (length s)]"
    using levenshtein_inner_same
            [OF i, of 0 "[i + 1]" "map (diag_dist i) [0 ..< Suc (length s)]"] start
    by simp
  show ?case
    unfolding enumerate_drop_step [OF i]
    using Suc.hyps(1) [of "Suc i"] Suc.hyps(2) i row by simp
qed

lemma levenshtein_distance_self: "levenshtein_distance s s = 0"
proof (cases "s = []")
  case True
  then show ?thesis by (simp add: levenshtein_distance_def levenshtein_ordered_def)
next
  case False
  have zero: "[0 ..< length s + 1] = map (diag_dist 0) [0 ..< Suc (length s)]"
    by (simp add: diag_dist_def map_idI del: upt_Suc)
  have "levenshtein_outer [0 ..< length s + 1] (enumerate 0 s) s
      = map (diag_dist (length s)) [0 ..< Suc (length s)]"
    unfolding zero using levenshtein_outer_same [of 0 s] by simp
  then show ?thesis
    using False by (simp add: levenshtein_distance_def levenshtein_ordered_def diag_dist_def)
qed

lemma prefix_len_self: "prefix_len s s = length s"
  by (induction s) simp_all

text \<open>
  Claim C3. The similarity of a non-empty name with itself is meant to be 1.0. With the
  phonetic component at 0.7 for equal keys (see C2) the code returns
  0.4 * 1 + 0.4 * 0.7 + 0.2 * 1 = 0.88 for every non-empty name, for instance for
  \<^verbatim>\<open>stripe\<close>.
\<close>

theorem calculate_similarity_self_is_088:
  "(s \<noteq> [] \<longrightarrow> calculate_similarity s s = 22 / 25)
   \<and> calculate_similarity ''stripe'' ''stripe'' = 22 / 25
   \<and> calculate_similarity ''stripe'' ''stripe'' \<noteq> 1"
proof -
  have "calculate_similarity ''stripe'' ''stripe'' = 22 / 25
      \<and> calculate_similarity ''stripe'' ''stripe'' \<noteq> 1"
    by code_simp
  then show ?thesis
    by (simp add: calculate_similarity_def Let_def levenshtein_distance_self prefix_len_self
          phonetic_similarity_self)
qed

theorem calculate_similarity_self_is_088_witness:
  "''a'' \<noteq> [] \<and> calculate_similarity ''a'' ''a'' = 22 / 25 \<and> calculate_similarity ''a'' ''a'' \<noteq> 1"
  using calculate_similarity_self_is_088 [of "''a''"] by simp

section \<open>The static pass\<close>

text \<open>
  Claim C5. The confusion risk of the static similarity pass is \<^verbatim>\<open>high\<close> exactly when some
  returned match scores above 0.8; failing that it is \<^verbatim>\<open>medium\<close> exactly when some returned
  match scores above 0.6; and it is \<^verbatim>\<open>low\<close> in every other case, the case of no match
  included.
\<close>

theorem find_similar_static_confusion_risk:
  "confusion_risk (find_similar_static nm) =
     (if (\<exists>m \<in> set (matches (find_similar_static nm)). similarity_score m > 8 / 10) then ''high''
      else if (\<exists>m \<in> set (matches (find_similar_static nm)). similarity_score m > 6 / 10)
      then ''medium'' else ''low'')
   \<and> ((confusion_risk (find_similar_static nm) = ''high'')
        = (\<exists>m \<in> set (matches (find_similar_static nm)). similarity_score m > 8 / 10))
   \<and> ((confusion_risk (find_similar_static nm) = ''medium'')
        = ((\<exists>m \<in> set (matches (find_similar_static nm)). similarity_score m > 6 / 10)
           \<and> \<not> (\<exists>m \<in> set (matches (find_similar_static nm)). similarity_score m > 8 / 10)))
   \<and> ((confusion_risk (find_similar_static nm) = ''low'')
        = (\<not> (\<exists>m \<in> set (matches (find_similar_static nm)). similarity_score m > 6 / 10)))"
proof -
  have risk: "confusion_risk (find_similar_static nm) =
     (if (\<exists>m \<in> set (matches (find_similar_static nm)). similarity_score m > 8 / 10) then ''high''
      else if (\<exists>m \<in> set (matches (find_similar_static nm)). similarity_score m > 6 / 10)
      then ''medium'' else ''low'')"
    by (auto simp: find_similar_static_def Let_def list_ex_iff)
  show ?thesis
    unfolding risk by auto
qed

theorem find_similar_static_confusion_risk_witness:
  "confusion_risk (find_similar_static ''Data'') = ''medium''
   \<and> (\<exists>m \<in> set (matches (find_similar_static ''Data'')). similarity_score m > 6 / 10)
   \<and> \<not> (\<exists>m \<in> set (matches (find_similar_static ''Data'')). similarity_score m > 8 / 10)"
  using find_similar_static_confusion_risk [of "''Data''"]
  by (simp add: find_similar_static_Data)

section \<open>Size and order of the match list\<close>

lemma sort_by_score_desc_sorted:
  "sorted_wrt (\<lambda>a b. similarity_score a \<ge> similarity_score b) (sort_by_score_desc ms)"
proof -
  have "sorted (map (\<lambda>x. - similarity_score x) (sort_key (\<lambda>x. - similarity_score x) ms))"
    by (rule sorted_sort_key)
  then show ?thesis
    by (simp add: sort_by_score_desc_def sorted_map)
qed

lemma top5_sorted:
  "sorted_wrt (\<lambda>a b. similarity_score a \<ge> similarity_score b) (take 5 (sort_by_score_desc ms))"
  by (rule sorted_wrt_take [OF sort_by_score_desc_sorted])

text \<open>
  Claim C8. The result of the static pass and the result of merging a static result
  with an oracle result each hold at most five matches, in non-increasing order of score;
  so does whatever \<^verbatim>\<open>find_similar_companies\<close> returns.
\<close>

theorem matches_at_most_five_sorted:
  "length (matches (find_similar_static nm)) \<le> 5
   \<and> sorted_wrt (\<lambda>a b. similarity_score a \<ge> similarity_score b)
        (matches (find_similar_static nm))
   \<and> length (matches (merge_similar_results st llm)) \<le> 5
   \<and> sorted_wrt (\<lambda>a b. similarity_score a \<ge> similarity_score b)
        (matches (merge_similar_results st llm))
   \<and> (case find_similar_companies w nm of
         Inl e \<Rightarrow> False
       | Inr r \<Rightarrow> length (matches r) \<le> 5
                 \<and> sorted_wrt (\<lambda>a b. similarity_score a \<ge> similarity_score b) (matches r))"
proof -
  have both: "length (matches (find_similar_static nm)) \<le> 5
      \<and> sorted_wrt (\<lambda>a b. similarity_score a \<ge> similarity_score b)
           (matches (find_similar_static nm))"
    "\<And>s l. length (matches (merge_similar_results s l)) \<le> 5
      \<and> sorted_wrt (\<lambda>a b. similarity_score a \<ge> similarity_score b)
           (matches (merge_similar_results s l))"
    by (simp_all add: find_similar_static_def merge_similar_results_def Let_def top5_sorted)
  then show ?thesis
    by (simp add: find_similar_companies_def Let_def split: sum.splits)
qed

theorem matches_at_most_five_sorted_witness:
  "map similarity_score (matches (find_similar_static ''Data'')) = [109 / 175, 13 / 25]
   \<and> length (matches (find_similar_static ''Data'')) = 2
   \<and> map similarity_score (matches (merge_similar_results sample_static sample_llm))
       = [95 / 100, 9 / 10, 6 / 10]
   \<and> sorted_wrt (\<lambda>a b. similarity_score a \<ge> similarity_score b)
        (matches (merge_similar_results sample_static sample_llm))"
  using matches_at_most_five_sorted [of "''Data''" sample_static sample_llm world_without_oracle]
  by (simp add: find_similar_static_Data merge_samples(2))

section \<open>Failure of the oracle\<close>

text \<open>
  Claim C9. When the call to the language model for similar companies raises an
  exception, \<^verbatim>\<open>find_similar_companies\<close> returns the result of the static pass, and no
  exception leaves it.
\<close>

theorem find_similar_companies_oracle_failure:
  "find_similar_with_llm w nm = Inl e
   \<Longrightarrow> find_similar_companies w nm = Inr (find_similar_static nm)"
  by (simp add: find_similar_companies_def Let_def)

theorem find_similar_companies_oracle_failure_witness:
  "truthy (api_key world_without_oracle)
   \<and> find_similar_with_llm world_without_oracle ''Stripe'' = Inl (Exception ''timeout'')
   \<and> find_similar_companies world_without_oracle ''Stripe''
       = Inr \<lparr>matches = [\<lparr>company_name = ''Stripe'', similarity_score = 22 / 25,
                           industry = ''payments'', reason = ''identical''\<rparr>],
              confusion_risk = ''high''\<rparr>"
  using find_similar_companies_oracle_failure
          [of world_without_oracle "''Stripe''" "Exception ''timeout''"]
  by (simp add: world_without_oracle_def truthy_def find_similar_static_Stripe)

section \<open>The international check\<close>

lemma check_international_unfold:
  "check_international nm =
     map (\<lambda>lang. (lang, \<lparr>has_issue = (international_issue (lower nm) lang \<noteq> None),
                          meaning = international_issue (lower nm) lang\<rparr>)) languages"
  by (simp add: check_international_def Let_def languages_def)

lemma international_issue_cases:
  "international_issue n lang =
     (if n = ''mist'' \<and> lang = ''german'' then Some ''manure/dung''
      else if n = ''fart'' \<and> lang = ''scandinavian'' then Some ''speed''
      else if n = ''nova'' \<and> lang = ''spanish''
      then Some (''doesn'' @ [CHR 0x27] @ ''t go (no va)'')
      else None)"
  by (auto simp: international_issue_def problematic_def)

lemma check_international_keys: "map fst (check_international nm) = languages"
  by (simp add: check_international_unfold comp_def)

lemma check_international_issue_iff:
  "map_of (check_international nm) lang = Some e \<Longrightarrow>
   has_issue e = ((lower nm = ''mist'' \<and> lang = ''german'')
                  \<or> (lower nm = ''nova'' \<and> lang = ''spanish''))"
  by (auto simp add: check_international_unfold international_issue_cases languages_def
        split: if_splits)

lemma check_international_issue_count:
  "length (filter has_issue (map snd (check_international nm))) \<le> 1"
  by (simp add: check_international_unfold international_issue_cases languages_def)

lemma check_international_score:
  "calc_international_score (check_international nm) = 80
   \<or> calc_international_score (check_international nm) = 100"
  by (simp add: calc_international_score_def check_international_unfold
        international_issue_cases languages_def)

lemma check_international_Mist:
  "check_international ''Mist'' =
     [(''spanish'', \<lparr>has_issue = False, meaning = None\<rparr>),
      (''french'', \<lparr>has_issue = False, meaning = None\<rparr>),
      (''german'', \<lparr>has_issue = True, meaning = Some ''manure/dung''\<rparr>),
      (''mandarin'', \<lparr>has_issue = False, meaning = None\<rparr>),
      (''japanese'', \<lparr>has_issue = False, meaning = None\<rparr>),
      (''portuguese'', \<lparr>has_issue = False, meaning = None\<rparr>),
      (''arabic'', \<lparr>has_issue = False, meaning = None\<rparr>)]"
  by code_simp

lemma lower_Mist: "lower ''Mist'' = ''mist''"
  by code_simp

text \<open>
  Claim C10. For every name, \<^verbatim>\<open>check_international\<close> returns one entry for each of the
  seven languages spanish, french, german, mandarin, japanese, portuguese, arabic and for
  no other key. An entry has \<^verbatim>\<open>has_issue\<close> true only for german when the lower-cased name is
  \<^verbatim>\<open>mist\<close> and for spanish when it is \<^verbatim>\<open>nova\<close> (the entry for \<^verbatim>\<open>fart\<close> names a language that
  is not checked), so at most one entry is flagged, and the international score of the
  result is 80 or 100.
\<close>

theorem check_international_seven_languages_one_issue:
  "map fst (check_international nm) =
     [''spanish'', ''french'', ''german'', ''mandarin'', ''japanese'', ''portuguese'', ''arabic'']
   \<and> (\<forall>lang e. map_of (check_international nm) lang = Some e \<longrightarrow>
         has_issue e = ((lower nm = ''mist'' \<and> lang = ''german'')
                        \<or> (lower nm = ''nova'' \<and> lang = ''spanish'')))
   \<and> length (filter has_issue (map snd (check_international nm))) \<le> 1
   \<and> (calc_international_score (check_international nm) = 80
      \<or> calc_international_score (check_international nm) = 100)"
  using check_international_keys [of nm] check_international_issue_iff [of nm]
    check_international_issue_count [of nm] check_international_score [of nm]
  by (simp add: languages_def)

theorem check_international_seven_languages_one_issue_witness:
  "map_of (check_international ''Mist'') ''german''
     = Some \<lparr>has_issue = True, meaning = Some ''manure/dung''\<rparr>
   \<and> lower ''Mist'' = ''mist''
   \<and> length (filter has_issue (map snd (check_international ''Mist''))) = 1
   \<and> calc_international_score (check_international ''Mist'') = 80"
  using check_international_seven_languages_one_issue [of "''Mist''"]
  by (simp add: check_international_Mist lower_Mist calc_international_score_def)

section \<open>The pronunciation penalty\<close>

lemma penalty_loop_closed:
  "penalty_loop nm b ps = b - (15 / 10) * real (length (filter (contains (lower nm)) ps))"
proof (induction ps arbitrary: b)
  case Nil
  show ?case by simp
next
  case (Cons p ps)
  show ?case
    by (simp add: Cons.IH add_divide_distrib)
qed

lemma distinct_difficult_patterns: "distinct difficult_patterns"
  by (simp add: difficult_patterns_def)

lemma difficult_present_card:
  "length (filter (contains (lower nm)) difficult_patterns)
     = card {p \<in> set difficult_patterns. contains (lower nm) p}"
proof -
  have "distinct (filter (contains (lower nm)) difficult_patterns)"
    using distinct_difficult_patterns by (rule distinct_filter)
  then have "card (set (filter (contains (lower nm)) difficult_patterns))
      = length (filter (contains (lower nm)) difficult_patterns)"
    by (rule distinct_card)
  then show ?thesis by simp
qed

text \<open>
  Claim C7, as stated: 1.5 is taken off for every occurrence of a difficult cluster, so a
  name that holds the same cluster twice loses 3.0 for it. The code tests each cluster
  once with \<^verbatim>\<open>pattern in name.lower()\<close>: the name \<^verbatim>\<open>tchtch\<close> (one syllable, base score 9)
  scores 7.5, where the claim's count of occurrences gives 6.
\<close>

theorem pronunciation_repeated_cluster_counterexample:
  "score (analyze_pronunciation ''tchtch'') = 15 / 2
   \<and> count_occurrences (lower ''tchtch'') ''tch'' = 2
   \<and> spec_pronunciation_score ''tchtch'' = 6
   \<and> score (analyze_pronunciation ''tchtch'') \<noteq> spec_pronunciation_score ''tchtch''"
  by code_simp

text \<open>
  Claim C7, amended. For every name, the pronunciation score is the syllable-count base
  score reduced by 1.5 for each difficult cluster among xw, zx, ptl, tch, sch that occurs
  at least once in the lower-cased name (a cluster counts once, however often it occurs),
  clamped to the range from 0 to 10.
\<close>

theorem pronunciation_score_per_cluster_present:
  "score (analyze_pronunciation nm) =
     max 0 (min 10 (syllable_base_score (count_syllables nm)
       - (15 / 10) * real (card {p \<in> {''xw'', ''zx'', ''ptl'', ''tch'', ''sch''}.
                                 contains (lower nm) p})))
   \<and> 0 \<le> score (analyze_pronunciation nm) \<and> score (analyze_pronunciation nm) \<le> 10"
proof -
  have "set difficult_patterns = {''xw'', ''zx'', ''ptl'', ''tch'', ''sch''}"
    by (simp add: difficult_patterns_def)
  then have "length (filter (contains (lower nm)) difficult_patterns)
      = card {p \<in> {''xw'', ''zx'', ''ptl'', ''tch'', ''sch''}. contains (lower nm) p}"
    using difficult_present_card [of nm] by simp
  then show ?thesis
    by (simp add: analyze_pronunciation_def Let_def penalty_loop_closed)
qed

theorem pronunciation_score_per_cluster_present_witness:
  "score (analyze_pronunciation ''tchtch'') = 15 / 2
   \<and> real (card {p \<in> {''xw'', ''zx'', ''ptl'', ''tch'', ''sch''}. contains (lower ''tchtch'') p})
       = 1"
proof -
  have s: "score (analyze_pronunciation ''tchtch'') = 15 / 2"
    and b: "syllable_base_score (count_syllables ''tchtch'') = 9"
    by code_simp+
  show ?thesis
    using pronunciation_score_per_cluster_present [of "''tchtch''"]
    unfolding s b by (auto simp: max_def min_def split: if_splits)
qed

section \<open>The domain score\<close>

lemma count_keys:
  assumes "distinct (map fst d)"
  shows "length (filter P (map fst d)) = card {k \<in> dom (map_of d). P k}"
proof -
  have "distinct (filter P (map fst d))"
    using assms by (rule distinct_filter)
  then have "card (set (filter P (map fst d))) = length (filter P (map fst d))"
    by (rule distinct_card)
  moreover have "set (filter P (map fst d)) = {k \<in> dom (map_of d). P k}"
    by (auto simp: dom_map_of_conv_image_fst)
  ultimately show ?thesis by simp
qed

lemma calc_domain_score_formula:
  assumes "distinct (map fst d)"
  shows "calc_domain_score d =
     (if d = [] then 0
      else (if map_of d ''.com'' = Some True then 50 else 0)
         + (if {t \<in> dom (map_of d). t \<noteq> ''.com''} = {} then 0
            else real (card {t \<in> dom (map_of d). t \<noteq> ''.com'' \<and> map_of d t = Some True})
                 / real (card {t \<in> dom (map_of d). t \<noteq> ''.com''}) * 50))"
proof -
  let ?others = "filter (\<lambda>tld. tld \<noteq> ''.com'') (map fst d)"
  let ?avail = "filter (\<lambda>tld. map_of d tld = Some True) ?others"
  have n_others: "length ?others = card {t \<in> dom (map_of d). t \<noteq> ''.com''}"
    using assms by (rule count_keys)
  have "?avail = filter (\<lambda>tld. tld \<noteq> ''.com'' \<and> map_of d tld = Some True) (map fst d)"
    by (simp add: conj_commute)
  then have n_avail: "length ?avail
        = card {t \<in> dom (map_of d). t \<noteq> ''.com'' \<and> map_of d t = Some True}"
    using count_keys [OF assms, of "\<lambda>tld. tld \<noteq> ''.com'' \<and> map_of d tld = Some True"]
    by (simp only:)
  have empty_iff: "(?others = []) = ({t \<in> dom (map_of d). t \<noteq> ''.com''} = {})"
    by (auto simp: dom_map_of_conv_image_fst filter_empty_conv)
  have "calc_domain_score d =
     (if d = [] then 0
      else (if map_of d ''.com'' = Some True then 50 else 0)
         + (if ?others = [] then 0 else real (length ?avail) / real (length ?others) * 50))"
    unfolding calc_domain_score_def Let_def by (simp del: length_filter_map filter_filter)
  then show ?thesis
    unfolding n_avail n_others empty_iff .
qed

lemma check_domains_unfold:
  "check_domains w nm = map (\<lambda>tld. (tld, whois_lookup w (lower nm @ tld) = None)) DEFAULT_TLDS"
  by (simp add: check_domains_def DEFAULT_TLDS_def Let_def)

lemma domains_all_available:
  "(\<forall>tld \<in> set DEFAULT_TLDS. whois_lookup w (lower nm @ tld) = None)
   \<Longrightarrow> calc_domain_score (check_domains w nm) = 100"
  by (simp add: check_domains_unfold DEFAULT_TLDS_def calc_domain_score_def)

lemma domains_none_available:
  "(\<forall>tld \<in> set DEFAULT_TLDS. whois_lookup w (lower nm @ tld) \<noteq> None)
   \<Longrightarrow> calc_domain_score (check_domains w nm) = 0"
  by (simp add: check_domains_unfold DEFAULT_TLDS_def calc_domain_score_def)

lemma domains_only_com:
  "whois_lookup w (lower nm @ ''.com'') = None
   \<Longrightarrow> (\<forall>tld \<in> set DEFAULT_TLDS. tld \<noteq> ''.com'' \<longrightarrow> whois_lookup w (lower nm @ tld) \<noteq> None)
   \<Longrightarrow> calc_domain_score (check_domains w nm) = 50"
  by (simp add: check_domains_unfold DEFAULT_TLDS_def calc_domain_score_def)

lemma calc_domain_score_sample: "calc_domain_score sample_domains = 75"
  by code_simp

text \<open>
  Claim C6. For a dictionary from TLD to availability (its keys are distinct), the
  domain score is 0 when the dictionary is empty; otherwise it is 50 if \<^verbatim>\<open>.com\<close> is mapped
  to available, plus, when there is a TLD other than \<^verbatim>\<open>.com\<close>, 50 times the share of
  available TLDs among the TLDs other than \<^verbatim>\<open>.com\<close>. Over the five default TLDs the score
  is 100 when all are available, 0 when none is, and 50 when only \<^verbatim>\<open>.com\<close> is.
\<close>

theorem calc_domain_score_spec:
  "(distinct (map fst d) \<longrightarrow>
      calc_domain_score d =
        (if d = [] then 0
         else (if map_of d ''.com'' = Some True then 50 else 0)
            + (if {t \<in> dom (map_of d). t \<noteq> ''.com''} = {} then 0
               else real (card {t \<in> dom (map_of d). t \<noteq> ''.com'' \<and> map_of d t = Some True})
                    / real (card {t \<in> dom (map_of d). t \<noteq> ''.com''}) * 50)))
   \<and> ((\<forall>tld \<in> set DEFAULT_TLDS. whois_lookup w (lower nm @ tld) = None)
        \<longrightarrow> calc_domain_score (check_domains w nm) = 100)
   \<and> ((\<forall>tld \<in> set DEFAULT_TLDS. whois_lookup w (lower nm @ tld) \<noteq> None)
        \<longrightarrow> calc_domain_score (check_domains w nm) = 0)
   \<and> (whois_lookup w (lower nm @ ''.com'') = None
        \<and> (\<forall>tld \<in> set DEFAULT_TLDS. tld \<noteq> ''.com'' \<longrightarrow> whois_lookup w (lower nm @ tld) \<noteq> None)
        \<longrightarrow> calc_domain_score (check_domains w nm) = 50)"
  using calc_domain_score_formula [of d] domains_all_available [of w nm]
    domains_none_available [of w nm] domains_only_com [of w nm]
  by blast

theorem calc_domain_score_spec_witness:
  "distinct (map fst sample_domains)
   \<and> calc_domain_score sample_domains = 75
   \<and> (if sample_domains = [] then 0
       else (if map_of sample_domains ''.com'' = Some True then 50 else 0)
          + (if {t \<in> dom (map_of sample_domains). t \<noteq> ''.com''} = {} then 0
             else real (card {t \<in> dom (map_of sample_domains). t \<noteq> ''.com''
                                   \<and> map_of sample_domains t = Some True})
                  / real (card {t \<in> dom (map_of sample_domains). t \<noteq> ''.com''}) * 50))
       = (75 :: real)
   \<and> list_all (\<lambda>tld. whois_lookup world_all_available (lower ''Acme'' @ tld) = None) DEFAULT_TLDS
   \<and> calc_domain_score (check_domains world_all_available ''Acme'') = 100
   \<and> list_all (\<lambda>tld. whois_lookup world_none_available (lower ''Acme'' @ tld) \<noteq> None)
        DEFAULT_TLDS
   \<and> calc_domain_score (check_domains world_none_available ''Acme'') = 0
   \<and> whois_lookup world_only_com (lower ''Acme'' @ ''.com'') = None
   \<and> list_all (\<lambda>tld. whois_lookup world_only_com (lower ''Acme'' @ tld) \<noteq> None)
        (filter (\<lambda>tld. tld \<noteq> ''.com'') DEFAULT_TLDS)
   \<and> calc_domain_score (check_domains world_only_com ''Acme'') = 50"
proof -
  let ?rhs = "if sample_domains = [] then 0
       else (if map_of sample_domains ''.com'' = Some True then 50 else 0)
          + (if {t \<in> dom (map_of sample_domains). t \<noteq> ''.com''} = {} then 0
             else real (card {t \<in> dom (map_of sample_domains). t \<noteq> ''.com''
                                   \<and> map_of sample_domains t = Some True})
                  / real (card {t \<in> dom (map_of sample_domains). t \<noteq> ''.com''}) * 50)"
  have d: "distinct (map fst sample_domains)"
    by (simp add: sample_domains_def)
  have "calc_domain_score sample_domains = ?rhs"
    using calc_domain_score_spec [of sample_domains world_all_available "''Acme''"] d by blast
  then have rhs: "?rhs = 75"
    using calc_domain_score_sample by (simp only:)
  have free: "list_all (\<lambda>tld. whois_lookup world_all_available (lower ''Acme'' @ tld) = None)
      DEFAULT_TLDS"
    and taken: "list_all (\<lambda>tld. whois_lookup world_none_available (lower ''Acme'' @ tld) \<noteq> None)
      DEFAULT_TLDS"
    and com: "whois_lookup world_only_com (lower ''Acme'' @ ''.com'') = None"
    and others: "list_all (\<lambda>tld. whois_lookup world_only_com (lower ''Acme'' @ tld) \<noteq> None)
      (filter (\<lambda>tld. tld \<noteq> ''.com'') DEFAULT_TLDS)"
    by code_simp+
  have "\<forall>tld \<in> set DEFAULT_TLDS. whois_lookup world_all_available (lower ''Acme'' @ tld) = None"
    using free by (simp only: list_all_iff)
  then have all: "calc_domain_score (check_domains world_all_available ''Acme'') = 100"
    using calc_domain_score_spec [of sample_domains world_all_available "''Acme''"]
    by blast
  have "\<forall>tld \<in> set DEFAULT_TLDS. whois_lookup world_none_available (lower ''Acme'' @ tld) \<noteq> None"
    using taken by (simp only: list_all_iff)
  then have none: "calc_domain_score (check_domains world_none_available ''Acme'') = 0"
    using calc_domain_score_spec [of sample_domains world_none_available "''Acme''"]
    by blast
  have "\<forall>tld \<in> set DEFAULT_TLDS. tld \<noteq> ''.com''
      \<longrightarrow> whois_lookup world_only_com (lower ''Acme'' @ tld) \<noteq> None"
    using others by (simp add: list_all_iff)
  then have only: "calc_domain_score (check_domains world_only_com ''Acme'') = 50"
    using calc_domain_score_spec [of sample_domains world_only_com "''Acme''"] com
    by blast
  show ?thesis
    using d calc_domain_score_sample rhs free all taken none com others only by blast
qed

section \<open>Merging static and oracle results\<close>

lemma merge_loop_append_absent:
  "merge_loop ((\<lambda>x. lower (company_name x)) ` set merged, merged) ms =
     ((\<lambda>x. lower (company_name x)) ` set (append_absent merged ms), append_absent merged ms)"
proof (induction ms arbitrary: merged)
  case Nil
  show ?case by simp
next
  case (Cons m ms)
  show ?case
  proof (cases "lower (company_name m) \<in> (\<lambda>x. lower (company_name x)) ` set merged")
    case True
    then show ?thesis
      using Cons.IH [of merged] by (simp add: Let_def)
  next
    case False
    then show ?thesis
      using Cons.IH [of "merged @ [m]"] by (simp add: Let_def)
  qed
qed

text \<open>Appending the absent ones to nothing keeps the first occurrence of each name.\<close>

lemma append_absent_keep_first:
  "append_absent merged ms =
     merged @ keep_first_by_name
       (filter (\<lambda>x. lower (company_name x) \<notin> (\<lambda>y. lower (company_name y)) ` set merged) ms)"
proof (induction ms arbitrary: merged)
  case Nil
  show ?case by simp
next
  case (Cons m ms)
  have "filter (\<lambda>x. lower (company_name x) \<noteq> lower (company_name m))
          (filter (\<lambda>x. lower (company_name x) \<notin> (\<lambda>y. lower (company_name y)) ` set merged) ms)
        = filter (\<lambda>x. lower (company_name x)
                    \<notin> (\<lambda>y. lower (company_name y)) ` set (merged @ [m])) ms"
    by (auto intro: filter_cong)
  then show ?case
    by (simp add: Cons.IH)
qed

lemma append_absent_Nil: "append_absent [] ms = keep_first_by_name ms"
  using append_absent_keep_first [of "[]" ms] by simp

lemma merge_matches:
  "matches (merge_similar_results st llm) = take 5 (sort_by_score_desc (spec_combined st llm))"
proof -
  have a: "merge_loop ({}, []) (matches llm) =
      ((\<lambda>x. lower (company_name x)) ` set (keep_first_by_name (matches llm)),
       keep_first_by_name (matches llm))"
    using merge_loop_append_absent [of "[]" "matches llm"] by (simp add: append_absent_Nil)
  have b: "snd (merge_loop (merge_loop ({}, []) (matches llm)) (matches st)) = spec_combined st llm"
    unfolding a merge_loop_append_absent spec_combined_def by simp
  show ?thesis
    unfolding merge_similar_results_def Let_def b by simp
qed

lemma merge_risk:
  assumes "confusion_risk st \<in> {''low'', ''medium'', ''high''}"
    and "confusion_risk llm \<in> {''low'', ''medium'', ''high''}"
  shows "confusion_risk (merge_similar_results st llm) =
    (if confusion_risk st = ''high'' \<or> confusion_risk llm = ''high'' then ''high''
     else if confusion_risk st = ''medium'' \<or> confusion_risk llm = ''medium'' then ''medium''
     else ''low'')"
  using assms by (auto simp: merge_similar_results_def Let_def risk_rank_def risk_order_def)

lemma sort_by_score_desc_stable:
  "filter (\<lambda>m. similarity_score m = k) (sort_by_score_desc ms)
     = filter (\<lambda>m. similarity_score m = k) ms"
  using sort_key_stable [of "\<lambda>x. - similarity_score x" "- k" ms]
  by (simp add: sort_by_score_desc_def)

text \<open>
  Claim C4. For a static result and an oracle result whose risk labels are among low,
  medium and high, the merge returns as matches the first five of the combined list
  sorted by score, highest first, where the combined list is the oracle's matches with
  only the first occurrence of each lower-cased name kept, followed by each static match
  whose lower-cased name is not yet present; the sort leaves matches of equal score in
  their order. The risk of the merge is the more severe of the two risks under
  low < medium < high.
\<close>

theorem merge_similar_results_spec:
  assumes "confusion_risk st \<in> {''low'', ''medium'', ''high''}"
    and "confusion_risk llm \<in> {''low'', ''medium'', ''high''}"
  shows "matches (merge_similar_results st llm)
           = take 5 (sort_by_score_desc (spec_combined st llm))
   \<and> sorted_wrt (\<lambda>a b. similarity_score a \<ge> similarity_score b)
        (sort_by_score_desc (spec_combined st llm))
   \<and> (\<forall>k. filter (\<lambda>m. similarity_score m = k) (sort_by_score_desc (spec_combined st llm))
            = filter (\<lambda>m. similarity_score m = k) (spec_combined st llm))
   \<and> confusion_risk (merge_similar_results st llm) =
       (if confusion_risk st = ''high'' \<or> confusion_risk llm = ''high'' then ''high''
        else if confusion_risk st = ''medium'' \<or> confusion_risk llm = ''medium'' then ''medium''
        else ''low'')"
  using merge_matches [of st llm] sort_by_score_desc_sorted [of "spec_combined st llm"]
    sort_by_score_desc_stable [of _ "spec_combined st llm"] merge_risk [OF assms]
  by simp

theorem merge_similar_results_spec_witness:
  "confusion_risk sample_static = ''high'' \<and> confusion_risk sample_llm = ''medium''
   \<and> map company_name (spec_combined sample_static sample_llm) = [''Stripe'', ''Strype'', ''Snipe'']
   \<and> map company_name (matches (merge_similar_results sample_static sample_llm))
       = [''Strype'', ''Stripe'', ''Snipe'']
   \<and> map company_name (take 5 (sort_by_score_desc (spec_combined sample_static sample_llm)))
       = [''Strype'', ''Stripe'', ''Snipe'']
   \<and> confusion_risk (merge_similar_results sample_static sample_llm) = ''high''"
proof -
  have risks: "confusion_risk sample_static = ''high''" "confusion_risk sample_llm = ''medium''"
    by (simp_all add: sample_static_def sample_llm_def)
  have "matches (merge_similar_results sample_static sample_llm)
      = take 5 (sort_by_score_desc (spec_combined sample_static sample_llm))"
    using merge_similar_results_spec [of sample_static sample_llm] risks by simp
  then have "take 5 (sort_by_score_desc (spec_combined sample_static sample_llm))
      = matches (merge_similar_results sample_static sample_llm)"
    by (rule sym)
  then have "map company_name (take 5 (sort_by_score_desc (spec_combined sample_static sample_llm)))
      = [''Strype'', ''Stripe'', ''Snipe'']"
    by (simp add: merge_samples(2))
  then show ?thesis
    using risks by (simp add: merge_samples)
qed

section \<open>The overall score\<close>

lemma ratio_times:
  assumes "a \<le> b" and "0 \<le> k"
  shows "0 \<le> real a / real b * k \<and> real a / real b * k \<le> k"
proof -
  have le1: "real a / real b \<le> 1"
    using assms(1) by (auto simp: divide_le_eq_1)
  have ge0: "0 \<le> real a / real b" by simp
  have "real a / real b * k \<le> 1 * k"
    using le1 assms(2) by (rule mult_right_mono)
  then show ?thesis
    using ge0 assms(2) by simp
qed

lemma calc_domain_score_bounds: "0 \<le> calc_domain_score d \<and> calc_domain_score d \<le> 100"
proof -
  let ?others = "filter (\<lambda>tld. tld \<noteq> ''.com'') (map fst d)"
  let ?avail = "filter (\<lambda>tld. map_of d tld = Some True) ?others"
  have "length ?avail \<le> length ?others" by (rule length_filter_le)
  then have "0 \<le> real (length ?avail) / real (length ?others) * 50
      \<and> real (length ?avail) / real (length ?others) * 50 \<le> 50"
    by (rule ratio_times) simp
  then show ?thesis
    unfolding calc_domain_score_def Let_def by (auto simp del: length_filter_map filter_filter)
qed

lemma calc_social_score_bounds: "0 \<le> calc_social_score s \<and> calc_social_score s \<le> 100"
proof -
  let ?avail = "filter (\<lambda>v. v) (map snd s)"
  have "length ?avail \<le> length s" using length_filter_le [of "\<lambda>v. v" "map snd s"] by simp
  then have "0 \<le> real (length ?avail) / real (length s) * 100
      \<and> real (length ?avail) / real (length s) * 100 \<le> 100"
    by (rule ratio_times) simp
  then show ?thesis
    unfolding calc_social_score_def Let_def by (auto simp del: length_filter_map filter_filter)
qed

lemma social_loop_bound: "social_loop t vs \<le> t + 100 * length vs"
  by (induction t vs rule: social_loop.induct) auto

lemma nc_calc_social_score_bounds:
  "0 \<le> nc_calc_social_score s \<and> nc_calc_social_score s \<le> 100"
proof (cases "s = []")
  case True
  then show ?thesis by (simp add: nc_calc_social_score_def)
next
  case False
  have "social_loop 0 (map snd s) \<le> 100 * length s"
    using social_loop_bound [of 0 "map snd s"] by simp
  then have "real (social_loop 0 (map snd s)) \<le> real (100 * length s)"
    by (simp only: of_nat_le_iff)
  then have "real (social_loop 0 (map snd s)) / real (length s) \<le> 100"
    using False by (simp add: pos_divide_le_eq)
  then show ?thesis
    using False by (simp add: nc_calc_social_score_def)
qed

lemma calc_trademark_score_bounds:
  "0 \<le> calc_trademark_score t \<and> calc_trademark_score t \<le> 100"
  by (simp add: calc_trademark_score_def)

lemma pronunciation_score_bounds:
  "0 \<le> score (analyze_pronunciation nm) * 10 \<and> score (analyze_pronunciation nm) * 10 \<le> 100"
  by (simp add: analyze_pronunciation_def Let_def)

lemma calc_international_score_bounds:
  "0 \<le> calc_international_score i \<and> calc_international_score i \<le> 100"
  by (simp add: calc_international_score_def Let_def)

lemma calc_similar_companies_score_bounds:
  "0 \<le> calc_similar_companies_score s \<and> calc_similar_companies_score s \<le> 100"
  by (simp add: calc_similar_companies_score_def)

lemma weighted_overall_bounds:
  assumes "0 \<le> d \<and> d \<le> 100" "0 \<le> s \<and> s \<le> 100" "0 \<le> t \<and> t \<le> 100"
    "0 \<le> p \<and> p \<le> 100" "0 \<le> i \<and> i \<le> 100" "0 \<le> c \<and> c \<le> 100"
  shows "0 \<le> weighted_overall d s t p i c \<and> weighted_overall d s t p i c \<le> 100"
  using assms unfolding weighted_overall_def by auto

lemma weighted_overall_spec_order:
  "weighted_overall d s t p i c = 0.20 * d + 0.10 * s + 0.20 * t + 0.15 * p + 0.15 * i + 0.20 * c"
  by (simp add: weighted_overall_def)

lemma find_similar_companies_returns: "\<exists>r. find_similar_companies w nm = Inr r"
  by (simp add: find_similar_companies_def Let_def split: sum.splits)

lemma nc_find_similar_companies_returns: "\<exists>r. nc_find_similar_companies w nm = Inr r"
  by (simp add: nc_find_similar_companies_def Let_def split: sum.splits)

lemma evaluate_overall:
  "\<exists>r. evaluate w nm mission = Inr r
     \<and> overall_score r = 0.20 * domain_score r + 0.10 * social_score r + 0.20 * trademark_score r
         + 0.15 * pronunciation_score r + 0.15 * international_score r
         + 0.20 * similar_companies_score r
     \<and> 0 \<le> overall_score r \<and> overall_score r \<le> 100"
proof -
  obtain sim where sim: "find_similar_companies w nm = Inr sim"
    using find_similar_companies_returns by blast
  have "0 \<le> weighted_overall (calc_domain_score (check_domains w nm))
           (calc_social_score (check_social nm)) (calc_trademark_score (check_trademark nm))
           (score (analyze_pronunciation nm) * 10)
           (calc_international_score (check_international nm))
           (calc_similar_companies_score sim)
       \<and> weighted_overall (calc_domain_score (check_domains w nm))
           (calc_social_score (check_social nm)) (calc_trademark_score (check_trademark nm))
           (score (analyze_pronunciation nm) * 10)
           (calc_international_score (check_international nm))
           (calc_similar_companies_score sim) \<le> 100"
    by (rule weighted_overall_bounds [OF calc_domain_score_bounds calc_social_score_bounds
        calc_trademark_score_bounds pronunciation_score_bounds calc_international_score_bounds
        calc_similar_companies_score_bounds])
  then show ?thesis
    by (simp add: evaluate_def Let_def sim weighted_overall_spec_order)
qed

lemma nc_evaluate_overall:
  "\<exists>r. nc_evaluate w nm mission pd = Inr r
     \<and> overall_score r = 0.20 * domain_score r + 0.10 * social_score r + 0.20 * trademark_score r
         + 0.15 * pronunciation_score r + 0.15 * international_score r
         + 0.20 * similar_companies_score r
     \<and> 0 \<le> overall_score r \<and> overall_score r \<le> 100"
proof -
  obtain sim where sim: "nc_find_similar_companies w nm = Inr sim"
    using nc_find_similar_companies_returns by blast
  have "0 \<le> weighted_overall (calc_domain_score (check_domains w nm))
           (nc_calc_social_score (nc_check_social nm pd))
           (calc_trademark_score (check_trademark nm))
           (score (analyze_pronunciation nm) * 10)
           (calc_international_score (check_international nm))
           (calc_similar_companies_score sim)
       \<and> weighted_overall (calc_domain_score (check_domains w nm))
           (nc_calc_social_score (nc_check_social nm pd))
           (calc_trademark_score (check_trademark nm))
           (score (analyze_pronunciation nm) * 10)
           (calc_international_score (check_international nm))
           (calc_similar_companies_score sim) \<le> 100"
    by (rule weighted_overall_bounds [OF calc_domain_score_bounds nc_calc_social_score_bounds
        calc_trademark_score_bounds pronunciation_score_bounds calc_international_score_bounds
        calc_similar_companies_score_bounds])
  then show ?thesis
    by (simp add: nc_evaluate_def Let_def sim weighted_overall_spec_order)
qed

lemma evaluate_samples:
  "(case evaluate world_without_oracle ''Stripe'' None of
      Inl e \<Rightarrow> None
    | Inr r \<Rightarrow> Some (overall_score r, [domain_score r, social_score r, trademark_score r,
                        pronunciation_score r, international_score r, similar_companies_score r]))
   = Some (145 / 2, [50, 100, 100, 90, 100, 20])"
  "(case nc_evaluate world_without_oracle ''Stripe'' None None of
      Inl e \<Rightarrow> None
    | Inr r \<Rightarrow> Some (overall_score r, [domain_score r, social_score r, trademark_score r,
                        pronunciation_score r, international_score r, similar_companies_score r]))
   = Some (177 / 2, [50, 100, 100, 90, 100, 100])"
  by code_simp+

text \<open>
  Claim C1. Every evaluation of a name returns a result (no exception leaves
  \<^verbatim>\<open>evaluate\<close>) whose overall score is 0.20 times the domain score plus 0.10 times the
  social score plus 0.20 times the trademark score plus 0.15 times the pronunciation
  score plus 0.15 times the international score plus 0.20 times the similar-companies
  score, the six scores being those of the same result, and the overall score lies between
  0 and 100. This holds for \<^verbatim>\<open>evaluate\<close> of \<^verbatim>\<open>brandval\<close> and of \<^verbatim>\<open>namecast\<close>, whatever the
  WHOIS lookups and the language model answer.
\<close>

theorem evaluate_overall_score:
  "(\<exists>r. evaluate w nm mission = Inr r
      \<and> overall_score r = 0.20 * domain_score r + 0.10 * social_score r
          + 0.20 * trademark_score r + 0.15 * pronunciation_score r
          + 0.15 * international_score r + 0.20 * similar_companies_score r
      \<and> 0 \<le> overall_score r \<and> overall_score r \<le> 100)
   \<and> (\<exists>r. nc_evaluate w nm mission planned_domain = Inr r
      \<and> overall_score r = 0.20 * domain_score r + 0.10 * social_score r
          + 0.20 * trademark_score r + 0.15 * pronunciation_score r
          + 0.15 * international_score r + 0.20 * similar_companies_score r
      \<and> 0 \<le> overall_score r \<and> overall_score r \<le> 100)"
  using evaluate_overall [of w nm mission] nc_evaluate_overall [of w nm mission planned_domain]
  by blast

theorem evaluate_overall_score_witness:
  "(\<exists>r. evaluate world_without_oracle ''Stripe'' None = Inr r
      \<and> overall_score r = 145 / 2 \<and> domain_score r = 50 \<and> social_score r = 100
      \<and> trademark_score r = 100 \<and> pronunciation_score r = 90 \<and> international_score r = 100
      \<and> similar_companies_score r = 20)
   \<and> (\<exists>r. nc_evaluate world_without_oracle ''Stripe'' None None = Inr r
      \<and> overall_score r = 177 / 2 \<and> similar_companies_score r = 100)"
proof -
  note inst = evaluate_overall_score [of world_without_oracle "''Stripe''" None None]
  from inst obtain r where r: "evaluate world_without_oracle ''Stripe'' None = Inr r"
    by blast
  from inst obtain r' where r': "nc_evaluate world_without_oracle ''Stripe'' None None = Inr r'"
    by blast
  show ?thesis
    using evaluate_samples unfolding r r' by simp
qed

end
